theory Spec2Isabelle
  imports Main
begin

section \<open>Data model\<close>

text \<open>
  The views of \<^verbatim>\<open>stackoverflow_clone/users/views.py\<close> are modelled as functions
  from the persistent state and the request to a response and the new state. A view's
  collaborators that live outside \<^verbatim>\<open>views.py\<close> (serializers, the token verifier)
  are passed to it as functions.
\<close>

subsection \<open>Responses\<close>

text \<open>The JSON bodies the views build: strings and objects.\<close>

datatype json = Str string | Obj "(string \<times> json) list"

text \<open>\<^verbatim>\<open>Response(data=..., status=...)\<close>; \<open>None\<close> is a response without a body.\<close>

datatype response = Response (data: "json option") (status: nat)

abbreviation HTTP_200_OK :: nat where "HTTP_200_OK \<equiv> 200"
abbreviation HTTP_201_CREATED :: nat where "HTTP_201_CREATED \<equiv> 201"
abbreviation HTTP_202_ACCEPTED :: nat where "HTTP_202_ACCEPTED \<equiv> 202"
abbreviation HTTP_204_NO_CONTENT :: nat where "HTTP_204_NO_CONTENT \<equiv> 204"
abbreviation HTTP_400_BAD_REQUEST :: nat where "HTTP_400_BAD_REQUEST \<equiv> 400"
abbreviation HTTP_404_NOT_FOUND :: nat where "HTTP_404_NOT_FOUND \<equiv> 404"
abbreviation HTTP_409_CONFLICT :: nat where "HTTP_409_CONFLICT \<equiv> 409"

text \<open>
  The exceptions that end a request. The framework turns \<open>AuthenticationFailed\<close>
  into a 401 response, \<open>Http404\<close> into a 404 response and \<open>PermissionDenied\<close> into
  a 403 response (a 401 one when the request carries no credentials and the
  authenticator asks for them); \<open>MultipleObjectsReturned\<close> and \<open>KeyError\<close> are not
  handled and end as a server error. \<open>DoesNotExist\<close> is the one exception a view
  catches itself.
\<close>

datatype exn =
  AuthenticationFailed | Http404 | PermissionDenied | DoesNotExist | MultipleObjectsReturned
  | KeyError

fun exception_status :: "exn \<Rightarrow> nat" where
  "exception_status AuthenticationFailed = 401"
| "exception_status Http404 = 404"
| "exception_status PermissionDenied = 403"
| "exception_status DoesNotExist = 500"
| "exception_status MultipleObjectsReturned = 500"
| "exception_status KeyError = 500"

subsection \<open>Users\<close>

text \<open>
  \<open>make_password raw\<close> stands for the stored hash of the raw password \<open>raw\<close>.
  A \<open>FieldFile\<close> such as \<open>profile.avatar\<close> is its \<open>name\<close>; it is falsy when the
  name is empty.
\<close>

datatype password_hash = make_password string

record profile =
  avatar :: string

record user =
  user_id :: nat
  username :: string
  email :: string
  password :: password_hash
  is_active :: bool
  profile :: profile

definition set_password :: "string \<Rightarrow> user \<Rightarrow> user" where
  "set_password raw u = u\<lparr>password := make_password raw\<rparr>"

subsection \<open>The persistent state and the side effects\<close>

text \<open>
  One call of \<^verbatim>\<open>send_verification_email.delay_on_commit(email, user_id, purpose, subject)\<close>:
  the task is handed to the queue by the on-commit hook of the current transaction.
\<close>

record email_task =
  task_email :: string
  task_user_id :: nat
  task_purpose :: string
  task_subject :: string

text \<open>
  \<open>users\<close> is the table of \<open>User\<close> rows (with \<open>next_id\<close> the next primary key),
  \<open>on_commit\<close> the email tasks registered with \<open>delay_on_commit\<close>, in order,
  \<open>effects\<close> the calls of \<^verbatim>\<open>Bucket().delete_object\<close> and the deletions of \<open>User\<close>
  rows, in the order in which they happen, and \<open>blacklisted\<close> the identifiers (jti)
  of the blacklisted refresh tokens.
\<close>

datatype effect = Delete_object string | Delete_row nat

record world =
  users :: "user list"
  next_id :: nat
  on_commit :: "email_task list"
  effects :: "effect list"
  blacklisted :: "nat list"

definition delay_on_commit :: "string \<Rightarrow> nat \<Rightarrow> string \<Rightarrow> string \<Rightarrow> world \<Rightarrow> world" where
  "delay_on_commit e i p subj w =
     w\<lparr>on_commit := on_commit w @
        [\<lparr>task_email = e, task_user_id = i, task_purpose = p, task_subject = subj\<rparr>]\<rparr>"

text \<open>
  \<^verbatim>\<open>instance.save()\<close> of a row that has a primary key: the row with that key is
  replaced; when there is none, the row is inserted.
\<close>

fun save :: "user \<Rightarrow> user list \<Rightarrow> user list" where
  "save u [] = [u]"
| "save u (r # rs) = (if user_id r = user_id u then u # rs else r # save u rs)"

text \<open>\<^verbatim>\<open>queryset.get(id=pk)\<close> on a table whose primary keys are unique.\<close>

definition get_by_id :: "user list \<Rightarrow> nat \<Rightarrow> user option" where
  "get_by_id us pk = find (\<lambda>u. user_id u = pk) us"

text \<open>\<^verbatim>\<open>User.objects.get(email=e)\<close>: exactly one row, or an exception.\<close>

definition objects_get_email :: "user list \<Rightarrow> string \<Rightarrow> exn + user" where
  "objects_get_email us e =
     (case filter (\<lambda>u. email u = e) us of
        [] \<Rightarrow> Inl DoesNotExist
      | [u] \<Rightarrow> Inr u
      | _ # _ # _ \<Rightarrow> Inl MultipleObjectsReturned)"

subsection \<open>Collaborators passed to the views\<close>

text \<open>
  A serializer reads the request data (and the table, for its uniqueness checks);
  \<open>is_valid()\<close> is \<open>Inr validated_data\<close>, otherwise \<open>Inl errors\<close>.
  The token verifier \<^verbatim>\<open>JWT_token.get_user(token)\<close> is given the token only and
  returns a \<open>User\<close> (\<open>Inr\<close>) or a response (\<open>Inl\<close>).
\<close>

type_synonym ('d, 'v) serializer = "user list \<Rightarrow> 'd \<Rightarrow> json + 'v"

type_synonym 't verifier = "user list \<Rightarrow> 't \<Rightarrow> response + user"

section \<open>Registration and verification\<close>

record register_data =
  vd_username :: string
  vd_email :: string
  vd_password :: string

text \<open>
  Modelled from the spec: \<^verbatim>\<open>services.register(username, email, password)\<close>, which is
  not part of \<^verbatim>\<open>views.py\<close>. The spec: registration "creates an inactive User"; the
  password is stored hashed and the profile starts without an avatar.
\<close>

definition register :: "string \<Rightarrow> string \<Rightarrow> string \<Rightarrow> world \<Rightarrow> user \<times> world" where
  "register uname mail raw w =
     (let u = \<lparr>user_id = next_id w, username = uname, email = mail,
                password = make_password raw, is_active = False,
                profile = \<lparr>avatar = []\<rparr>\<rparr>
      in (u, w\<lparr>users := users w @ [u], next_id := Suc (next_id w)\<rparr>))"

definition UserRegisterAPI_post ::
    "('d, register_data) serializer \<Rightarrow> world \<Rightarrow> 'd \<Rightarrow> response \<times> world" where
  "UserRegisterAPI_post serializer w request_data =
     (case serializer (users w) request_data of
        Inr vd \<Rightarrow>
          (case register (vd_username vd) (vd_email vd) (vd_password vd) w of
             (u, w1) \<Rightarrow>
               (Response (Some (Obj [(''data'',
                    Obj [(''message'', Str ''We`ve sent you an activation link via email.'')])]))
                  HTTP_201_CREATED,
                delay_on_commit (vd_email vd) (user_id u) ''verification''
                  ''Verification URL from AskTech'' w1))
      | Inl errors \<Rightarrow>
          (Response (Some (Obj [(''errors'', errors)])) HTTP_400_BAD_REQUEST, w))"

definition UserRegisterVerifyAPI_get :: "'t verifier \<Rightarrow> world \<Rightarrow> 't \<Rightarrow> response \<times> world" where
  "UserRegisterVerifyAPI_get get_user w token =
     (case get_user (users w) token of
        Inl token_result \<Rightarrow> (token_result, w)
      | Inr token_result \<Rightarrow>
          if is_active token_result
          then (Response (Some (Obj [(''message'', Str ''this account already is active.'')]))
                  HTTP_409_CONFLICT, w)
          else (Response (Some (Obj [(''message'', Str ''Account activated successfully.'')]))
                  HTTP_200_OK,
                w\<lparr>users := save (token_result\<lparr>is_active := True\<rparr>) (users w)\<rparr>))"

section \<open>Passwords\<close>

record set_password_data =
  new_password :: string

definition SetPasswordAPI_post ::
    "'t verifier \<Rightarrow> ('d, set_password_data) serializer \<Rightarrow> world \<Rightarrow> 'd \<Rightarrow> 't
       \<Rightarrow> response \<times> world" where
  "SetPasswordAPI_post get_user serializer w request_data token =
     (case get_user (users w) token of
        Inl token_result \<Rightarrow> (token_result, w)
      | Inr token_result \<Rightarrow>
          (case serializer (users w) request_data of
             Inr vd \<Rightarrow>
               (Response (Some (Obj [(''message'', Str ''Password changed successfully.'')]))
                  HTTP_200_OK,
                w\<lparr>users := save (set_password (new_password vd) token_result) (users w)\<rparr>)
           | Inl errors \<Rightarrow>
               (Response (Some (Obj [(''errors'', errors)])) HTTP_400_BAD_REQUEST, w)))"

record reset_password_data =
  rp_email :: string

definition ResetPasswordAPI_post ::
    "('d, reset_password_data) serializer \<Rightarrow> world \<Rightarrow> 'd \<Rightarrow> (exn + response) \<times> world" where
  "ResetPasswordAPI_post serializer w request_data =
     (case serializer (users w) request_data of
        Inr vd \<Rightarrow>
          (case objects_get_email (users w) (rp_email vd) of
             Inl e \<Rightarrow>
               if e = DoesNotExist
               then (Inr (Response (Some (Obj [(''errors'', Str ''user with this Email not found.'')]))
                            HTTP_404_NOT_FOUND), w)
               else (Inl e, w)
           | Inr u \<Rightarrow>
               (Inr (Response (Some (Obj [(''message'',
                          Str ''A password reset link has been sent to your email.'')]))
                       HTTP_202_ACCEPTED),
                delay_on_commit (email u) (user_id u) ''reset_password'' ''Reset Password Link:'' w))
      | Inl errors \<Rightarrow>
          (Inr (Response (Some (Obj [(''errors'', errors)])) HTTP_400_BAD_REQUEST), w))"

section \<open>The token verifier\<close>

text \<open>
  What the signing library decodes a token string to: nothing (\<open>Malformed\<close>), claims
  whose signature does not verify (\<open>Tampered\<close>), or claims under a good signature
  (\<open>Signed\<close>). The claims are the user's identifier, the purpose tag
  (\<^verbatim>\<open>verification\<close> or \<^verbatim>\<open>reset_password\<close>) and the expiry time.
\<close>

record token_claims =
  claim_user_id :: nat
  claim_purpose :: string
  claim_exp :: nat

datatype token = Malformed | Tampered token_claims | Signed token_claims

text \<open>
  Modelled from the spec: \<^verbatim>\<open>JWT_token.get_user(token)\<close>, which is not part of
  \<^verbatim>\<open>views.py\<close>. The spec: "given a token string, decode and validate signature and
  expiry; on success return the referenced User; on failure return an error response
  (not an exception)"; the failures are a "malformed token, expired token, token
  referencing a nonexistent user", all mapped "to a 4xx outcome without leaking which
  specific reason". Both views call it as \<^verbatim>\<open>get_user(token)\<close>: it is told neither the
  endpoint nor the purpose the endpoint expects. \<open>now\<close> is the time of the call.
\<close>

definition invalid_token_response :: response where
  "invalid_token_response = Response None HTTP_400_BAD_REQUEST"

fun JWT_token_get_user :: "nat \<Rightarrow> token verifier" where
  "JWT_token_get_user now us Malformed = Inl invalid_token_response"
| "JWT_token_get_user now us (Tampered c) = Inl invalid_token_response"
| "JWT_token_get_user now us (Signed c) =
     (if claim_exp c \<le> now then Inl invalid_token_response
      else case get_by_id us (claim_user_id c) of
             None \<Rightarrow> Inl invalid_token_response
           | Some u \<Rightarrow> Inr u)"

text \<open>
  The purpose tag of a token and the purpose each token-consuming endpoint is for,
  in the spec's words: verify takes "a verification token", for set-password the
  "purpose must be \<^verbatim>\<open>reset_password\<close>".
\<close>

fun token_purpose :: "token \<Rightarrow> string option" where
  "token_purpose Malformed = None"
| "token_purpose (Tampered c) = Some (claim_purpose c)"
| "token_purpose (Signed c) = Some (claim_purpose c)"

text \<open>
  The tokens that are invalid whatever the endpoint: malformed, tampered, or expired
  at the time \<open>now\<close>.
\<close>

fun invalid_token :: "nat \<Rightarrow> token \<Rightarrow> bool" where
  "invalid_token now Malformed = True"
| "invalid_token now (Tampered c) = True"
| "invalid_token now (Signed c) = (claim_exp c \<le> now)"

datatype endpoint = Verify | Set_password

fun expected_purpose :: "endpoint \<Rightarrow> string" where
  "expected_purpose Verify = ''verification''"
| "expected_purpose Set_password = ''reset_password''"

section \<open>Session token revocation\<close>

text \<open>
  What the token library decodes a refresh token string to: nothing (a malformed or
  wrongly signed string, or a token of another type), or the token's identifier
  (jti) and expiry time.
\<close>

datatype refresh = Undecodable | Decoded (jti: nat) (exp: nat)

text \<open>
  \<^verbatim>\<open>RefreshToken(raw)\<close> of the token library with its blacklist application, which
  \<^verbatim>\<open>token.blacklist()\<close> needs: the constructor verifies the token and raises
  \<open>TokenError\<close> (here \<open>None\<close>) when the string does not decode, when the token has
  expired and when its jti is blacklisted. This is how a blacklisted token is
  rejected wherever it is presented.
\<close>

fun RefreshToken :: "nat \<Rightarrow> nat list \<Rightarrow> refresh \<Rightarrow> nat option" where
  "RefreshToken now bl Undecodable = None"
| "RefreshToken now bl (Decoded j e) = (if e \<le> now \<or> j \<in> set bl then None else Some j)"

text \<open>\<^verbatim>\<open>token.blacklist()\<close>: get-or-create of the blacklist row for the jti.\<close>

definition blacklist :: "nat \<Rightarrow> nat list \<Rightarrow> nat list" where
  "blacklist j bl = (if j \<in> set bl then bl else bl @ [j])"

text \<open>
  \<open>request.data\<close> is a dictionary; the view reads \<^verbatim>\<open>request.data['refresh']\<close>
  itself. \<open>now\<close> is the time of the request.
\<close>

definition BlockTokenAPI_post ::
    "nat \<Rightarrow> (string \<rightharpoonup> refresh, 'v) serializer \<Rightarrow> world \<Rightarrow> (string \<rightharpoonup> refresh)
       \<Rightarrow> (exn + response) \<times> world" where
  "BlockTokenAPI_post now serializer w request_data =
     (case serializer (users w) request_data of
        Inr vd \<Rightarrow>
          (case request_data ''refresh'' of
             None \<Rightarrow> (Inl KeyError, w)
           | Some raw \<Rightarrow>
               (case RefreshToken now (blacklisted w) raw of
                  None \<Rightarrow>
                    (Inr (Response (Some (Obj [(''errors'', Obj [(''refresh'',
                              Str ''The provided token is invalid or has expired.'')])]))
                            HTTP_400_BAD_REQUEST), w)
                | Some token \<Rightarrow>
                    (Inr (Response (Some (Obj [(''message'', Str ''Token blocked successfully!'')]))
                            HTTP_204_NO_CONTENT),
                     w\<lparr>blacklisted := blacklist token (blacklisted w)\<rparr>)))
      | Inl errors \<Rightarrow>
          (Inr (Response (Some (Obj [(''errors'', errors)])) HTTP_400_BAD_REQUEST), w))"

section \<open>The profile endpoint\<close>

datatype http_method = GET | PATCH | DELETE

text \<open>
  What a request presents to be authenticated: nothing, an access token that the token
  library does not accept, or an access token that it accepts, with the identifier of
  the user the token was issued to.
\<close>

datatype credentials = No_credentials | Invalid_access_token | Access_token nat

text \<open>
  Modelled from the spec: the authentication that the project's settings, which are
  not part of \<^verbatim>\<open>views.py\<close>, put before every view. The spec: \<open>is_active=false\<close>
  "implies the account cannot authenticate for protected actions". It is the
  authenticator of the token library whose tokens the views handle: a request
  without credentials goes on as an anonymous one (\<open>None\<close>); a token that the library
  does not accept, a token of a user that is gone and a token of an inactive user
  raise \<open>AuthenticationFailed\<close>; otherwise \<open>request.user\<close> is the token's user.
\<close>

fun authenticate :: "user list \<Rightarrow> credentials \<Rightarrow> exn + nat option" where
  "authenticate us No_credentials = Inr None"
| "authenticate us Invalid_access_token = Inl AuthenticationFailed"
| "authenticate us (Access_token i) =
     (case get_by_id us i of
        None \<Rightarrow> Inl AuthenticationFailed
      | Some u \<Rightarrow> if is_active u then Inr (Some i) else Inl AuthenticationFailed)"

text \<open>
  Modelled from the spec: \<^verbatim>\<open>permissions.IsOwnerOrReadOnly\<close>, which is not part of
  \<^verbatim>\<open>views.py\<close>. The spec: "any caller may GET, only the owning identity may
  PATCH/DELETE". \<open>requester\<close> is \<open>request.user\<close>: the identifier of the user that
  \<open>authenticate\<close> has set, \<open>None\<close> for an anonymous request.
\<close>

definition IsOwnerOrReadOnly :: "http_method \<Rightarrow> nat option \<Rightarrow> user \<Rightarrow> bool" where
  "IsOwnerOrReadOnly m requester obj = (m = GET \<or> requester = Some (user_id obj))"

text \<open>
  \<^verbatim>\<open>self.get_object()\<close> of the generic view with
  \<^verbatim>\<open>queryset = User.objects.filter(is_active=True)\<close> and \<^verbatim>\<open>lookup_field = 'id'\<close>:
  the row is looked up among the active users first (\<open>Http404\<close> when there is none),
  the object permission is checked second.
\<close>

definition get_object :: "world \<Rightarrow> http_method \<Rightarrow> nat option \<Rightarrow> nat \<Rightarrow> exn + user" where
  "get_object w m requester pk =
     (case get_by_id (filter is_active (users w)) pk of
        None \<Rightarrow> Inl Http404
      | Some obj \<Rightarrow> if IsOwnerOrReadOnly m requester obj then Inr obj else Inl PermissionDenied)"

text \<open>
  The three methods of the view are its handlers: the framework runs them on a
  request that it has authenticated, and \<open>requester\<close> is the \<open>request.user\<close> of that
  request. A whole request to \<^verbatim>\<open>profile/{id}\<close> is \<open>UserProfileAPI_dispatch\<close> below.

  The inherited \<^verbatim>\<open>get\<close>: the representation of the object, built by the serializer.
\<close>

definition UserProfileAPI_get ::
    "(user \<Rightarrow> json) \<Rightarrow> world \<Rightarrow> nat option \<Rightarrow> nat \<Rightarrow> (exn + response) \<times> world" where
  "UserProfileAPI_get to_representation w requester pk =
     (case get_object w GET requester pk of
        Inl e \<Rightarrow> (Inl e, w)
      | Inr obj \<Rightarrow> (Inr (Response (Some (to_representation obj)) HTTP_200_OK), w))"

text \<open>
  The validated data of a partial update: a dictionary that holds the supplied
  fields only.
\<close>

record profile_data =
  pd_username :: "string option"
  pd_email :: "string option"
  pd_avatar :: "string option"

text \<open>
  Modelled from the spec: \<^verbatim>\<open>serializer.save()\<close> of \<^verbatim>\<open>UserSerializer\<close> on an
  instance, which is not part of \<^verbatim>\<open>views.py\<close>. The spec: a partial update "merges
  only supplied fields". \<open>update\<close> sets the supplied fields on the instance, \<open>save\<close>
  then writes the instance.
\<close>

definition update :: "user \<Rightarrow> profile_data \<Rightarrow> user" where
  "update u vd =
     u\<lparr>username := (case pd_username vd of None \<Rightarrow> username u | Some x \<Rightarrow> x),
       email := (case pd_email vd of None \<Rightarrow> email u | Some x \<Rightarrow> x),
       profile := (case pd_avatar vd of None \<Rightarrow> profile u | Some x \<Rightarrow> (profile u)\<lparr>avatar := x\<rparr>)\<rparr>"

text \<open>
  In \<^verbatim>\<open>patch\<close>, \<open>user\<close> and the serializer's instance are one object: the
  \<open>is_active = False\<close> set on \<open>user\<close> is part of what \<^verbatim>\<open>serializer.save()\<close> writes.
\<close>

definition UserProfileAPI_patch ::
    "(user \<Rightarrow> ('d, profile_data) serializer) \<Rightarrow> world \<Rightarrow> nat option \<Rightarrow> nat \<Rightarrow> 'd
       \<Rightarrow> (exn + response) \<times> world" where
  "UserProfileAPI_patch serializer w requester pk request_data =
     (case get_object w PATCH requester pk of
        Inl e \<Rightarrow> (Inl e, w)
      | Inr u \<Rightarrow>
          (case serializer u (users w) request_data of
             Inr vd \<Rightarrow>
               (case pd_email vd of
                  Some new_email \<Rightarrow>
                    (let u1 = u\<lparr>is_active := False\<rparr>;
                         w1 = w\<lparr>users := save u1 (users w)\<rparr>;
                         w2 = delay_on_commit new_email (user_id u1) ''verification''
                                ''Verification URL from AskTech.'' w1
                     in (Inr (Response (Some (Obj [(''message'',
                                  Str (''Updated profile successfully.'' @
                                    '' A verification link has been sent to your new email address.''))]))
                               HTTP_200_OK),
                         w2\<lparr>users := save (update u1 vd) (users w2)\<rparr>))
                | None \<Rightarrow>
                    (Inr (Response (Some (Obj [(''message'', Str ''Updated profile successfully.'')]))
                            HTTP_200_OK),
                     w\<lparr>users := save (update u vd) (users w)\<rparr>))
           | Inl errors \<Rightarrow>
               (Inr (Response (Some (Obj [(''errors'', errors)])) HTTP_400_BAD_REQUEST), w)))"

text \<open>
  \<^verbatim>\<open>super().destroy(request)\<close>: the generic view looks the object up again, deletes
  its row with \<^verbatim>\<open>instance.delete()\<close> (the profile goes with it) and answers 204
  without a body.
\<close>

definition DestroyModelMixin_destroy ::
    "world \<Rightarrow> nat option \<Rightarrow> nat \<Rightarrow> (exn + response) \<times> world" where
  "DestroyModelMixin_destroy w requester pk =
     (case get_object w DELETE requester pk of
        Inl e \<Rightarrow> (Inl e, w)
      | Inr instance \<Rightarrow>
          (Inr (Response None HTTP_204_NO_CONTENT),
           w\<lparr>users := filter (\<lambda>r. user_id r \<noteq> user_id instance) (users w),
             effects := effects w @ [Delete_row (user_id instance)]\<rparr>))"

definition delete_object :: "string \<Rightarrow> world \<Rightarrow> world" where
  "delete_object key w = w\<lparr>effects := effects w @ [Delete_object key]\<rparr>"

definition UserProfileAPI_destroy ::
    "world \<Rightarrow> nat option \<Rightarrow> nat \<Rightarrow> (exn + response) \<times> world" where
  "UserProfileAPI_destroy w requester pk =
     (case get_object w DELETE requester pk of
        Inl e \<Rightarrow> (Inl e, w)
      | Inr u \<Rightarrow>
          if avatar (profile u) \<noteq> []
          then (case get_object w DELETE requester pk of
                  Inl e \<Rightarrow> (Inl e, w)
                | Inr u2 \<Rightarrow>
                    DestroyModelMixin_destroy (delete_object (avatar (profile u2)) w) requester pk)
          else DestroyModelMixin_destroy w requester pk)"

text \<open>
  A request to \<^verbatim>\<open>profile/{id}\<close>, as the framework's \<^verbatim>\<open>dispatch\<close> runs it: the
  request is authenticated first, and an authentication failure ends it before any
  handler; then the handler of the request's method runs with \<open>request.user\<close>.
\<close>

definition UserProfileAPI_dispatch ::
    "(user \<Rightarrow> json) \<Rightarrow> (user \<Rightarrow> ('d, profile_data) serializer) \<Rightarrow> world \<Rightarrow> http_method
       \<Rightarrow> credentials \<Rightarrow> nat \<Rightarrow> 'd \<Rightarrow> (exn + response) \<times> world" where
  "UserProfileAPI_dispatch to_representation serializer w m cred pk request_data =
     (case authenticate (users w) cred of
        Inl e \<Rightarrow> (Inl e, w)
      | Inr requester \<Rightarrow>
          (case m of
             GET \<Rightarrow> UserProfileAPI_get to_representation w requester pk
           | PATCH \<Rightarrow> UserProfileAPI_patch serializer w requester pk request_data
           | DELETE \<Rightarrow> UserProfileAPI_destroy w requester pk))"

section \<open>Sample data\<close>

text \<open>
  The examples below run the views on this table: \<open>alice\<close> has registered and is
  not verified yet, \<open>bob\<close> is active and has an avatar. \<open>plain\<close> is a serializer
  for them: request data \<open>Some v\<close> is valid with validated data \<open>v\<close>, \<open>None\<close> is not.
\<close>

definition plain :: "('v option, 'v) serializer" where
  "plain us d = (case d of None \<Rightarrow> Inl (Str ''invalid'') | Some v \<Rightarrow> Inr v)"

definition alice :: user where
  "alice = \<lparr>user_id = 1, username = ''alice'', email = ''a@x.com'',
            password = make_password ''Secret123!'', is_active = False,
            profile = \<lparr>avatar = []\<rparr>\<rparr>"

definition bob :: user where
  "bob = \<lparr>user_id = 2, username = ''bob'', email = ''b@x.com'',
          password = make_password ''Pa55word?'', is_active = True,
          profile = \<lparr>avatar = ''avatars/bob.png''\<rparr>\<rparr>"

definition w0 :: world where
  "w0 = \<lparr>users = [alice, bob], next_id = 3, on_commit = [], effects = [],
         blacklisted = []\<rparr>"

text \<open>
  \<open>plain_for\<close> is \<open>plain\<close> for a partial update of an instance, \<open>refresh_required\<close>
  a serializer that asks for the \<^verbatim>\<open>refresh\<close> field, \<open>representation\<close> a rendering of
  a user. The requests: three partial updates for \<open>bob\<close> (a new email, his own
  email again, a new name only) and a request to block a refresh token that expires
  at time 100.
\<close>

definition plain_for :: "user \<Rightarrow> ('v option, 'v) serializer" where
  "plain_for u = plain"

definition refresh_required :: "(string \<rightharpoonup> refresh, unit) serializer" where
  "refresh_required us d =
     (case d ''refresh'' of
        None \<Rightarrow> Inl (Obj [(''refresh'', Str ''This field is required.'')])
      | Some raw \<Rightarrow> Inr ())"

definition representation :: "user \<Rightarrow> json" where
  "representation u = Obj [(''username'', Str (username u)), (''email'', Str (email u))]"

definition bob_new_email :: "profile_data option" where
  "bob_new_email = Some \<lparr>pd_username = None, pd_email = Some ''r@x.com'', pd_avatar = None\<rparr>"

definition bob_same_email :: "profile_data option" where
  "bob_same_email = Some \<lparr>pd_username = None, pd_email = Some ''b@x.com'', pd_avatar = None\<rparr>"

definition bob_new_name :: "profile_data option" where
  "bob_new_name = Some \<lparr>pd_username = Some ''robert'', pd_email = None, pd_avatar = None\<rparr>"

definition block_request :: "string \<rightharpoonup> refresh" where
  "block_request = [''refresh'' \<mapsto> Decoded 7 100]"

section \<open>Facts about the table\<close>

lemma get_by_id_user_id: "get_by_id us pk = Some u \<Longrightarrow> user_id u = pk"
  by (auto simp: get_by_id_def find_Some_iff)

lemma get_by_id_mem: "get_by_id us pk = Some u \<Longrightarrow> u \<in> set us"
  by (auto simp: get_by_id_def find_Some_iff)

lemma get_by_id_save: "get_by_id (save u us) (user_id u) = Some u"
  by (induction us) (auto simp: get_by_id_def)

lemma save_save: "user_id v = user_id u \<Longrightarrow> save v (save u us) = save v us"
  by (induction us) auto

lemma user_id_update: "user_id (update u vd) = user_id u"
  by (simp add: update_def)

lemma is_active_update: "is_active (update u vd) = is_active u"
  by (simp add: update_def)

lemma get_object_Inr:
  "get_object w m requester pk = Inr u \<Longrightarrow>
     user_id u = pk \<and> is_active u \<and> u \<in> set (users w)"
  by (auto simp: get_object_def split: option.splits if_splits
      dest: get_by_id_user_id get_by_id_mem)

lemma set_save: "user_id ` set (save u us) = insert (user_id u) (user_id ` set us)"
  by (induction us) auto

lemma mem_save: "u \<in> set (save u us)"
  by (induction us) auto

lemma distinct_save: "distinct (map user_id us) \<Longrightarrow> distinct (map user_id (save u us))"
proof (induction us)
  case Nil
  then show ?case by simp
next
  case (Cons r rs)
  show ?case
  proof (cases "user_id r = user_id u")
    case True
    with Cons.prems show ?thesis by simp
  next
    case False
    with Cons show ?thesis by (simp add: set_save)
  qed
qed

lemma inactive_not_in_queryset:
  assumes "distinct (map user_id us)" and "u \<in> set us" and "\<not> is_active u"
  shows "get_by_id (filter is_active us) (user_id u) = None"
proof -
  have "r = u" if "r \<in> set us" and "user_id r = user_id u" for r
    using assms(1,2) that by (auto simp: distinct_map dest: inj_onD)
  with assms(3) show ?thesis
    by (auto simp: get_by_id_def find_None_iff)
qed

lemma inactive_get_object:
  assumes "distinct (map user_id (users w))" and "u \<in> set (users w)" and "\<not> is_active u"
  shows "get_object w m requester (user_id u) = Inl Http404"
  using inactive_not_in_queryset [OF assms] by (simp add: get_object_def)

lemma get_by_id_distinct:
  assumes "distinct (map user_id us)" and "u \<in> set us"
  shows "get_by_id us (user_id u) = Some u"
  using assms by (induction us) (auto simp: get_by_id_def image_iff)

section \<open>Runs of the profile views\<close>

lemma patch_email_run:
  assumes "get_object w PATCH requester pk = Inr u"
    and "serializer u (users w) request_data = Inr vd"
    and "pd_email vd = Some new_email"
  shows "UserProfileAPI_patch serializer w requester pk request_data =
      (Inr (Response (Some (Obj [(''message'',
              Str ''Updated profile successfully. A verification link has been sent to your new email address.'')]))
             HTTP_200_OK),
       w\<lparr>users := save (update (u\<lparr>is_active := False\<rparr>) vd) (users w),
         on_commit := on_commit w @
             [\<lparr>task_email = new_email, task_user_id = pk, task_purpose = ''verification'',
               task_subject = ''Verification URL from AskTech.''\<rparr>]\<rparr>)"
proof -
  let ?u1 = "u\<lparr>is_active := False\<rparr>"
  have pk: "user_id u = pk"
    using assms(1) get_object_Inr by blast
  have "user_id (update ?u1 vd) = user_id ?u1"
    by (rule user_id_update)
  then have "save (update ?u1 vd) (save ?u1 (users w)) = save (update ?u1 vd) (users w)"
    by (rule save_save)
  with assms pk show ?thesis
    by (simp add: UserProfileAPI_patch_def delay_on_commit_def Let_def)
qed

lemma patch_plain_run:
  assumes "get_object w PATCH requester pk = Inr u"
    and "serializer u (users w) request_data = Inr vd"
    and "pd_email vd = None"
  shows "UserProfileAPI_patch serializer w requester pk request_data =
      (Inr (Response (Some (Obj [(''message'', Str ''Updated profile successfully.'')])) HTTP_200_OK),
       w\<lparr>users := save (update u vd) (users w)\<rparr>)"
  using assms by (simp add: UserProfileAPI_patch_def)

lemma not_found_views:
  assumes "\<And>m. get_object w m requester pk = Inl Http404"
  shows "UserProfileAPI_get to_representation w requester pk = (Inl Http404, w) \<and>
         UserProfileAPI_patch serializer w requester pk request_data = (Inl Http404, w) \<and>
         UserProfileAPI_destroy w requester pk = (Inl Http404, w)"
  by (simp add: UserProfileAPI_get_def UserProfileAPI_patch_def UserProfileAPI_destroy_def assms)

lemma dispatch_authenticated:
  assumes "authenticate (users w) cred = Inr requester"
  shows "UserProfileAPI_dispatch to_representation serializer w m cred pk request_data =
           (case m of
              GET \<Rightarrow> UserProfileAPI_get to_representation w requester pk
            | PATCH \<Rightarrow> UserProfileAPI_patch serializer w requester pk request_data
            | DELETE \<Rightarrow> UserProfileAPI_destroy w requester pk)"
  using assms by (simp add: UserProfileAPI_dispatch_def)

lemma dispatch_not_found:
  assumes "distinct (map user_id (users w))" and "u \<in> set (users w)" and "\<not> is_active u"
    and "authenticate (users w) cred = Inr requester"
  shows "UserProfileAPI_dispatch to_representation serializer w m cred (user_id u) request_data =
           (Inl Http404, w)"
proof -
  have nf: "\<And>m. get_object w m requester (user_id u) = Inl Http404"
    using inactive_get_object [OF assms(1-3)] by simp
  show ?thesis
    by (cases m) (simp_all add: dispatch_authenticated [OF assms(4)] not_found_views [OF nf])
qed

lemma dispatch_inactive_requester:
  assumes "distinct (map user_id (users w))" and "u \<in> set (users w)" and "\<not> is_active u"
  shows "UserProfileAPI_dispatch to_representation serializer w m (Access_token (user_id u)) pk
           request_data = (Inl AuthenticationFailed, w)"
  using assms get_by_id_distinct [OF assms(1,2)] by (simp add: UserProfileAPI_dispatch_def)

section \<open>Properties of the views\<close>

text \<open>
  C1, as the views have it. When the token verifier rejects the token, that is, when
  it returns a response and not a user, the verify view and the set-password view
  both return that very response and leave the whole state, with every \<open>User\<close> row,
  as it was; this holds for every verifier, and the views do not raise. A malformed,
  tampered or expired token is rejected so by the verifier of the spec. The views
  hand the verifier the token alone: the purpose tag is not checked against the
  endpoint.
\<close>

theorem rejected_token:
  "(get_user (users w) token = Inl failure \<longrightarrow>
      UserRegisterVerifyAPI_get get_user w token = (failure, w) \<and>
      SetPasswordAPI_post get_user serializer w request_data token = (failure, w)) \<and>
   (invalid_token now t \<longrightarrow>
      UserRegisterVerifyAPI_get (JWT_token_get_user now) w t = (invalid_token_response, w) \<and>
      SetPasswordAPI_post (JWT_token_get_user now) serializer w request_data t =
        (invalid_token_response, w))"
proof (intro conjI impI)
  assume "get_user (users w) token = Inl failure"
  then show "UserRegisterVerifyAPI_get get_user w token = (failure, w)"
    and "SetPasswordAPI_post get_user serializer w request_data token = (failure, w)"
    by (simp_all add: UserRegisterVerifyAPI_get_def SetPasswordAPI_post_def)
next
  assume "invalid_token now t"
  then have "JWT_token_get_user now (users w) t = Inl invalid_token_response"
    by (cases t) simp_all
  then show "UserRegisterVerifyAPI_get (JWT_token_get_user now) w t = (invalid_token_response, w)"
    and "SetPasswordAPI_post (JWT_token_get_user now) serializer w request_data t =
        (invalid_token_response, w)"
    by (simp_all add: UserRegisterVerifyAPI_get_def SetPasswordAPI_post_def)
qed

theorem rejected_token_witness:
  "JWT_token_get_user 50 (users w0)
      (Signed \<lparr>claim_user_id = 9, claim_purpose = ''reset_password'', claim_exp = 100\<rparr>) =
     Inl invalid_token_response \<and>
   UserRegisterVerifyAPI_get (JWT_token_get_user 50) w0
      (Signed \<lparr>claim_user_id = 9, claim_purpose = ''reset_password'', claim_exp = 100\<rparr>) =
     (invalid_token_response, w0) \<and>
   SetPasswordAPI_post (JWT_token_get_user 50) plain w0 (Some \<lparr>new_password = ''hunter2''\<rparr>)
      (Signed \<lparr>claim_user_id = 9, claim_purpose = ''reset_password'', claim_exp = 100\<rparr>) =
     (invalid_token_response, w0) \<and>
   invalid_token 50 (Signed \<lparr>claim_user_id = 2, claim_purpose = ''reset_password'', claim_exp = 40\<rparr>) \<and>
   UserRegisterVerifyAPI_get (JWT_token_get_user 50) w0
      (Signed \<lparr>claim_user_id = 2, claim_purpose = ''reset_password'', claim_exp = 40\<rparr>) =
     (invalid_token_response, w0) \<and>
   SetPasswordAPI_post (JWT_token_get_user 50) plain w0 (Some \<lparr>new_password = ''hunter2''\<rparr>)
      (Signed \<lparr>claim_user_id = 2, claim_purpose = ''reset_password'', claim_exp = 40\<rparr>) =
     (invalid_token_response, w0)"
  using rejected_token [of "JWT_token_get_user 50" w0
      "Signed \<lparr>claim_user_id = 9, claim_purpose = ''reset_password'', claim_exp = 100\<rparr>"
      invalid_token_response plain "Some \<lparr>new_password = ''hunter2''\<rparr>" 50
      "Signed \<lparr>claim_user_id = 2, claim_purpose = ''reset_password'', claim_exp = 40\<rparr>"]
  by (simp add: w0_def alice_def bob_def get_by_id_def)

text \<open>
  C1 as stated fails for the purpose tag. A well-signed, unexpired token tagged
  \<^verbatim>\<open>verification\<close> carries the wrong purpose for set-password, whose purpose is
  \<^verbatim>\<open>reset_password\<close>; the set-password view accepts it all the same, answers 200 and
  writes the new password into \<open>bob\<close>'s row.
\<close>

theorem verification_token_sets_password:
  "token_purpose (Signed \<lparr>claim_user_id = 2, claim_purpose = ''verification'', claim_exp = 100\<rparr>)
     \<noteq> Some (expected_purpose Set_password) \<and>
   SetPasswordAPI_post (JWT_token_get_user 50) plain w0 (Some \<lparr>new_password = ''hunter2''\<rparr>)
          (Signed \<lparr>claim_user_id = 2, claim_purpose = ''verification'', claim_exp = 100\<rparr>)
    = (Response (Some (Obj [(''message'', Str ''Password changed successfully.'')])) HTTP_200_OK,
       w0\<lparr>users := [alice, bob\<lparr>password := make_password ''hunter2''\<rparr>]\<rparr>) \<and>
   users (w0\<lparr>users := [alice, bob\<lparr>password := make_password ''hunter2''\<rparr>]\<rparr>) \<noteq> users w0"
  by (simp add: SetPasswordAPI_post_def plain_def w0_def alice_def bob_def get_by_id_def set_password_def)

text \<open>
  C2. For a user \<open>u\<close> that the verifier resolves from the token: when \<open>u\<close> is
  inactive the verify view answers 200, saves \<open>u\<close> with \<open>is_active = True\<close>, and the
  row stored under \<open>u\<close>'s key is then that active user; when \<open>u\<close> is already active
  the view answers 409 and the state is unchanged.
\<close>

theorem verify_valid_token:
  assumes "get_user (users w) token = Inr u"
  shows "(\<not> is_active u \<longrightarrow>
            UserRegisterVerifyAPI_get get_user w token =
              (Response (Some (Obj [(''message'', Str ''Account activated successfully.'')])) HTTP_200_OK,
               w\<lparr>users := save (u\<lparr>is_active := True\<rparr>) (users w)\<rparr>) \<and>
            get_by_id (users (snd (UserRegisterVerifyAPI_get get_user w token))) (user_id u)
              = Some (u\<lparr>is_active := True\<rparr>)) \<and>
         (is_active u \<longrightarrow>
            UserRegisterVerifyAPI_get get_user w token =
              (Response (Some (Obj [(''message'', Str ''this account already is active.'')])) HTTP_409_CONFLICT,
               w))"
proof -
  have "get_by_id (save (u\<lparr>is_active := True\<rparr>) (users w)) (user_id u) = Some (u\<lparr>is_active := True\<rparr>)"
    using get_by_id_save [of "u\<lparr>is_active := True\<rparr>" "users w"] by simp
  with assms show ?thesis
    by (simp add: UserRegisterVerifyAPI_get_def)
qed

theorem verify_valid_token_witness:
  "JWT_token_get_user 50 (users w0)
      (Signed \<lparr>claim_user_id = 1, claim_purpose = ''verification'', claim_exp = 100\<rparr>) = Inr alice \<and>
   \<not> is_active alice \<and>
   UserRegisterVerifyAPI_get (JWT_token_get_user 50) w0
      (Signed \<lparr>claim_user_id = 1, claim_purpose = ''verification'', claim_exp = 100\<rparr>) =
     (Response (Some (Obj [(''message'', Str ''Account activated successfully.'')])) HTTP_200_OK,
      w0\<lparr>users := [alice\<lparr>is_active := True\<rparr>, bob]\<rparr>) \<and>
   JWT_token_get_user 50 (users w0)
      (Signed \<lparr>claim_user_id = 2, claim_purpose = ''verification'', claim_exp = 100\<rparr>) = Inr bob \<and>
   is_active bob \<and>
   UserRegisterVerifyAPI_get (JWT_token_get_user 50) w0
      (Signed \<lparr>claim_user_id = 2, claim_purpose = ''verification'', claim_exp = 100\<rparr>) =
     (Response (Some (Obj [(''message'', Str ''this account already is active.'')])) HTTP_409_CONFLICT,
      w0)"
  using verify_valid_token [of "JWT_token_get_user 50" w0
      "Signed \<lparr>claim_user_id = 1, claim_purpose = ''verification'', claim_exp = 100\<rparr>" alice]
    verify_valid_token [of "JWT_token_get_user 50" w0
      "Signed \<lparr>claim_user_id = 2, claim_purpose = ''verification'', claim_exp = 100\<rparr>" bob]
  by (simp add: w0_def alice_def bob_def get_by_id_def)

text \<open>
  C3. For a payload that the register serializer accepts, the register view answers
  201 with a message that does not depend on the payload, adds exactly one row to the
  table, an inactive user with the payload's name and email, and registers exactly
  one more email task with the on-commit hook: a \<^verbatim>\<open>verification\<close> email to the
  payload's address for the new user.
\<close>

theorem register_valid_payload:
  assumes "serializer (users w) request_data = Inr vd"
  shows "fst (UserRegisterAPI_post serializer w request_data) =
           Response (Some (Obj [(''data'',
              Obj [(''message'', Str ''We`ve sent you an activation link via email.'')])]))
             HTTP_201_CREATED \<and>
         butlast (users (snd (UserRegisterAPI_post serializer w request_data))) = users w \<and>
         last (users (snd (UserRegisterAPI_post serializer w request_data))) =
           \<lparr>user_id = next_id w, username = vd_username vd, email = vd_email vd,
            password = make_password (vd_password vd), is_active = False,
            profile = \<lparr>avatar = []\<rparr>\<rparr> \<and>
         on_commit (snd (UserRegisterAPI_post serializer w request_data)) =
           on_commit w @
             [\<lparr>task_email = vd_email vd, task_user_id = next_id w,
               task_purpose = ''verification'', task_subject = ''Verification URL from AskTech''\<rparr>]"
  using assms
  by (simp add: UserRegisterAPI_post_def register_def delay_on_commit_def Let_def)

theorem register_valid_payload_witness:
  "plain (users w0) (Some \<lparr>vd_username = ''carol'', vd_email = ''c@x.com'', vd_password = ''Secret123!''\<rparr>)
     = Inr \<lparr>vd_username = ''carol'', vd_email = ''c@x.com'', vd_password = ''Secret123!''\<rparr> \<and>
   status (fst (UserRegisterAPI_post plain w0
      (Some \<lparr>vd_username = ''carol'', vd_email = ''c@x.com'', vd_password = ''Secret123!''\<rparr>))) = 201 \<and>
   users (snd (UserRegisterAPI_post plain w0
      (Some \<lparr>vd_username = ''carol'', vd_email = ''c@x.com'', vd_password = ''Secret123!''\<rparr>))) =
     [alice, bob, \<lparr>user_id = 3, username = ''carol'', email = ''c@x.com'',
            password = make_password ''Secret123!'', is_active = False,
            profile = \<lparr>avatar = []\<rparr>\<rparr>] \<and>
   on_commit (snd (UserRegisterAPI_post plain w0
      (Some \<lparr>vd_username = ''carol'', vd_email = ''c@x.com'', vd_password = ''Secret123!''\<rparr>))) =
     [\<lparr>task_email = ''c@x.com'', task_user_id = 3,
               task_purpose = ''verification'', task_subject = ''Verification URL from AskTech''\<rparr>]"
  using register_valid_payload [of plain w0
      "Some \<lparr>vd_username = ''carol'', vd_email = ''c@x.com'', vd_password = ''Secret123!''\<rparr>"
      "\<lparr>vd_username = ''carol'', vd_email = ''c@x.com'', vd_password = ''Secret123!''\<rparr>"]
  by (simp add: plain_def w0_def UserRegisterAPI_post_def register_def delay_on_commit_def Let_def)

text \<open>
  C4. A profile PATCH by the owner of an active account, with a payload that the
  serializer accepts and that holds the email key: the answer is 200, the row stored
  under the user's key is the user with \<open>is_active = False\<close>, with the new email and
  with every other supplied field set (the fields that were not supplied keep their
  values), no other row changes, and exactly one \<^verbatim>\<open>verification\<close> email task for the
  new address is registered with the on-commit hook.
\<close>

theorem patch_email:
  assumes "get_object w PATCH requester pk = Inr u"
    and "serializer u (users w) request_data = Inr vd"
    and "pd_email vd = Some new_email"
  shows "fst (UserProfileAPI_patch serializer w requester pk request_data) =
           Inr (Response (Some (Obj [(''message'',
              Str ''Updated profile successfully. A verification link has been sent to your new email address.'')]))
             HTTP_200_OK) \<and>
         users (snd (UserProfileAPI_patch serializer w requester pk request_data)) =
           save (update (u\<lparr>is_active := False\<rparr>) vd) (users w) \<and>
         get_by_id (users (snd (UserProfileAPI_patch serializer w requester pk request_data))) pk =
           Some (update (u\<lparr>is_active := False\<rparr>) vd) \<and>
         \<not> is_active (update (u\<lparr>is_active := False\<rparr>) vd) \<and>
         email (update (u\<lparr>is_active := False\<rparr>) vd) = new_email \<and>
         username (update (u\<lparr>is_active := False\<rparr>) vd) =
           (case pd_username vd of None \<Rightarrow> username u | Some x \<Rightarrow> x) \<and>
         avatar (profile (update (u\<lparr>is_active := False\<rparr>) vd)) =
           (case pd_avatar vd of None \<Rightarrow> avatar (profile u) | Some x \<Rightarrow> x) \<and>
         on_commit (snd (UserProfileAPI_patch serializer w requester pk request_data)) =
           on_commit w @
             [\<lparr>task_email = new_email, task_user_id = pk, task_purpose = ''verification'',
               task_subject = ''Verification URL from AskTech.''\<rparr>]"
proof -
  let ?u1 = "u\<lparr>is_active := False\<rparr>"
  let ?row = "update ?u1 vd"
  have pk: "user_id u = pk"
    using assms(1) get_object_Inr by blast
  have id: "user_id ?row = user_id ?u1"
    by (rule user_id_update)
  have ss: "save ?row (save ?u1 (users w)) = save ?row (users w)"
    using id by (rule save_save)
  have g: "get_by_id (save ?row (users w)) pk = Some ?row"
    using get_by_id_save [of ?row "users w"] pk by (simp add: user_id_update)
  have res: "UserProfileAPI_patch serializer w requester pk request_data =
      (Inr (Response (Some (Obj [(''message'',
              Str ''Updated profile successfully. A verification link has been sent to your new email address.'')]))
             HTTP_200_OK),
       w\<lparr>users := save ?row (users w),
         on_commit := on_commit w @
             [\<lparr>task_email = new_email, task_user_id = pk, task_purpose = ''verification'',
               task_subject = ''Verification URL from AskTech.''\<rparr>]\<rparr>)"
    using assms pk ss
    by (simp add: UserProfileAPI_patch_def delay_on_commit_def Let_def)
  have f: "\<not> is_active ?row \<and> email ?row = new_email \<and>
      username ?row = (case pd_username vd of None \<Rightarrow> username u | Some x \<Rightarrow> x) \<and>
      avatar (profile ?row) = (case pd_avatar vd of None \<Rightarrow> avatar (profile u) | Some x \<Rightarrow> x)"
    using assms(3) by (simp add: update_def split: option.splits)
  show ?thesis
    using res g f by simp
qed

theorem patch_email_witness:
  "get_object w0 PATCH (Some 2) 2 = Inr bob \<and>
   plain_for bob (users w0)
     (Some \<lparr>pd_username = Some ''robert'', pd_email = Some ''r@x.com'', pd_avatar = None\<rparr>) =
     Inr \<lparr>pd_username = Some ''robert'', pd_email = Some ''r@x.com'', pd_avatar = None\<rparr> \<and>
   users (snd (UserProfileAPI_patch plain_for w0 (Some 2) 2
     (Some \<lparr>pd_username = Some ''robert'', pd_email = Some ''r@x.com'', pd_avatar = None\<rparr>))) =
     [alice, bob\<lparr>username := ''robert'', email := ''r@x.com'', is_active := False\<rparr>] \<and>
   on_commit (snd (UserProfileAPI_patch plain_for w0 (Some 2) 2
     (Some \<lparr>pd_username = Some ''robert'', pd_email = Some ''r@x.com'', pd_avatar = None\<rparr>))) =
     [\<lparr>task_email = ''r@x.com'', task_user_id = 2, task_purpose = ''verification'',
               task_subject = ''Verification URL from AskTech.''\<rparr>]"
  using patch_email [of w0 "Some 2" 2 bob plain_for
     "Some \<lparr>pd_username = Some ''robert'', pd_email = Some ''r@x.com'', pd_avatar = None\<rparr>"
     "\<lparr>pd_username = Some ''robert'', pd_email = Some ''r@x.com'', pd_avatar = None\<rparr>" "''r@x.com''"]
  by (simp add: get_object_def get_by_id_def IsOwnerOrReadOnly_def plain_for_def plain_def
      w0_def alice_def bob_def update_def)

text \<open>
  C5. For a reset-password request that the serializer accepts: when no row has the
  given email the answer is 404 and nothing is registered; when a user has it, that
  is, when the rows with the given email are that one user, the answer is 202 and
  exactly one email task is registered, with the purpose \<^verbatim>\<open>reset_password\<close>, for
  that user and that user's address.
\<close>

theorem reset_password_request:
  assumes "serializer (users w) request_data = Inr vd"
  shows "(filter (\<lambda>r. email r = rp_email vd) (users w) = [] \<longrightarrow>
            ResetPasswordAPI_post serializer w request_data =
              (Inr (Response (Some (Obj [(''errors'', Str ''user with this Email not found.'')]))
                      HTTP_404_NOT_FOUND), w)) \<and>
         (filter (\<lambda>r. email r = rp_email vd) (users w) = [u] \<longrightarrow>
            ResetPasswordAPI_post serializer w request_data =
              (Inr (Response (Some (Obj [(''message'',
                        Str ''A password reset link has been sent to your email.'')]))
                      HTTP_202_ACCEPTED),
               w\<lparr>on_commit := on_commit w @
                  [\<lparr>task_email = email u, task_user_id = user_id u,
                    task_purpose = ''reset_password'', task_subject = ''Reset Password Link:''\<rparr>]\<rparr>))"
  using assms
  by (simp add: ResetPasswordAPI_post_def objects_get_email_def delay_on_commit_def)

theorem reset_password_request_witness:
  "plain (users w0) (Some \<lparr>rp_email = ''nobody@x.com''\<rparr>) = Inr \<lparr>rp_email = ''nobody@x.com''\<rparr> \<and>
   filter (\<lambda>r. email r = ''nobody@x.com'') (users w0) = [] \<and>
   ResetPasswordAPI_post plain w0 (Some \<lparr>rp_email = ''nobody@x.com''\<rparr>) =
     (Inr (Response (Some (Obj [(''errors'', Str ''user with this Email not found.'')]))
        HTTP_404_NOT_FOUND), w0) \<and>
   plain (users w0) (Some \<lparr>rp_email = ''b@x.com''\<rparr>) = Inr \<lparr>rp_email = ''b@x.com''\<rparr> \<and>
   filter (\<lambda>r. email r = ''b@x.com'') (users w0) = [bob] \<and>
   ResetPasswordAPI_post plain w0 (Some \<lparr>rp_email = ''b@x.com''\<rparr>) =
     (Inr (Response (Some (Obj [(''message'',
                        Str ''A password reset link has been sent to your email.'')]))
                      HTTP_202_ACCEPTED),
      w0\<lparr>on_commit := [\<lparr>task_email = ''b@x.com'', task_user_id = 2,
                    task_purpose = ''reset_password'', task_subject = ''Reset Password Link:''\<rparr>]\<rparr>)"
  using reset_password_request [of plain w0 "Some \<lparr>rp_email = ''nobody@x.com''\<rparr>"
      "\<lparr>rp_email = ''nobody@x.com''\<rparr>" bob]
    reset_password_request [of plain w0 "Some \<lparr>rp_email = ''b@x.com''\<rparr>"
      "\<lparr>rp_email = ''b@x.com''\<rparr>" bob]
  by (simp add: plain_def w0_def alice_def bob_def)

text \<open>
  C6, as the view has it. Blocking a refresh token that the library accepts answers
  204 and puts the token's jti on the blacklist. From then on the library rejects
  the token at any later time, and blocking the same token again leaves the state as
  the first call left it; the second call does not raise, and its answer is the 400
  response of an invalid token, not the success response.
\<close>

theorem blacklist_twice:
  assumes "serializer (users w) request_data = Inr vd"
    and "request_data ''refresh'' = Some raw"
    and "RefreshToken now (blacklisted w) raw = Some j"
  shows "BlockTokenAPI_post now serializer w request_data =
           (Inr (Response (Some (Obj [(''message'', Str ''Token blocked successfully!'')]))
                   HTTP_204_NO_CONTENT),
            w\<lparr>blacklisted := blacklisted w @ [j]\<rparr>) \<and>
         RefreshToken later (blacklisted (snd (BlockTokenAPI_post now serializer w request_data))) raw
           = None \<and>
         BlockTokenAPI_post later serializer
             (snd (BlockTokenAPI_post now serializer w request_data)) request_data =
           (Inr (Response (Some (Obj [(''errors'', Obj [(''refresh'',
                     Str ''The provided token is invalid or has expired.'')])]))
                   HTTP_400_BAD_REQUEST),
            snd (BlockTokenAPI_post now serializer w request_data))"
proof -
  from assms(3) obtain e where raw: "raw = Decoded j e" and fresh: "j \<notin> set (blacklisted w)"
    by (cases raw) (auto split: if_splits)
  have first: "BlockTokenAPI_post now serializer w request_data =
           (Inr (Response (Some (Obj [(''message'', Str ''Token blocked successfully!'')]))
                   HTTP_204_NO_CONTENT),
            w\<lparr>blacklisted := blacklisted w @ [j]\<rparr>)"
    using assms fresh by (simp add: BlockTokenAPI_post_def blacklist_def)
  have rejected: "RefreshToken later (blacklisted (w\<lparr>blacklisted := blacklisted w @ [j]\<rparr>)) raw = None"
    by (simp add: raw)
  have second: "BlockTokenAPI_post later serializer (w\<lparr>blacklisted := blacklisted w @ [j]\<rparr>) request_data =
           (Inr (Response (Some (Obj [(''errors'', Obj [(''refresh'',
                     Str ''The provided token is invalid or has expired.'')])]))
                   HTTP_400_BAD_REQUEST),
            w\<lparr>blacklisted := blacklisted w @ [j]\<rparr>)"
    using assms(1,2) rejected by (simp add: BlockTokenAPI_post_def)
  show ?thesis
    using first rejected second by simp
qed

theorem blacklist_twice_witness:
  "refresh_required (users w0) block_request = Inr () \<and>
   block_request ''refresh'' = Some (Decoded 7 100) \<and>
   RefreshToken 50 (blacklisted w0) (Decoded 7 100) = Some 7 \<and>
   BlockTokenAPI_post 50 refresh_required w0 block_request =
     (Inr (Response (Some (Obj [(''message'', Str ''Token blocked successfully!'')]))
        HTTP_204_NO_CONTENT), w0\<lparr>blacklisted := [7]\<rparr>) \<and>
   BlockTokenAPI_post 60 refresh_required (w0\<lparr>blacklisted := [7]\<rparr>) block_request =
     (Inr (Response (Some (Obj [(''errors'', Obj [(''refresh'',
                     Str ''The provided token is invalid or has expired.'')])]))
                   HTTP_400_BAD_REQUEST), w0\<lparr>blacklisted := [7]\<rparr>)"
  using blacklist_twice [of refresh_required w0 block_request "()" "Decoded 7 100" 50 7 60]
  by (simp add: refresh_required_def block_request_def w0_def BlockTokenAPI_post_def blacklist_def)

text \<open>
  C6 as stated fails for the second call: it ends with the 400 error response
  \<^verbatim>\<open>The provided token is invalid or has expired.\<close>, while the first call of the same
  request ended with the success response.
\<close>

theorem second_block_is_error:
  "fst (BlockTokenAPI_post 50 refresh_required w0 block_request) =
     Inr (Response (Some (Obj [(''message'', Str ''Token blocked successfully!'')]))
        HTTP_204_NO_CONTENT) \<and>
   fst (BlockTokenAPI_post 60 refresh_required
          (snd (BlockTokenAPI_post 50 refresh_required w0 block_request)) block_request) =
     Inr (Response (Some (Obj [(''errors'', Obj [(''refresh'',
                     Str ''The provided token is invalid or has expired.'')])]))
                   HTTP_400_BAD_REQUEST)"
  by (simp add: BlockTokenAPI_post_def refresh_required_def block_request_def w0_def blacklist_def)

text \<open>
  C7. A DELETE of an active account by its owner answers 204 and removes the row
  (with its profile). Of the calls to the object store and the row deletions, in the
  order in which they happen, the request adds: when the profile has an avatar,
  exactly one \<^verbatim>\<open>delete_object\<close> call with the avatar's key and after it the deletion
  of the row; when the profile has no avatar, the deletion of the row alone. A DELETE
  request that authenticates as the owner runs exactly this handler.
\<close>

theorem destroy_avatar:
  assumes "get_by_id (filter is_active (users w)) pk = Some u"
  shows "UserProfileAPI_destroy w (Some pk) pk =
           DestroyModelMixin_destroy
             (if avatar (profile u) \<noteq> [] then delete_object (avatar (profile u)) w else w)
             (Some pk) pk \<and>
         fst (UserProfileAPI_destroy w (Some pk) pk) = Inr (Response None HTTP_204_NO_CONTENT) \<and>
         users (snd (UserProfileAPI_destroy w (Some pk) pk)) =
           filter (\<lambda>r. user_id r \<noteq> pk) (users w) \<and>
         effects (snd (UserProfileAPI_destroy w (Some pk) pk)) =
           effects w @
           (if avatar (profile u) \<noteq> [] then [Delete_object (avatar (profile u))] else []) @
           [Delete_row pk] \<and>
         (authenticate (users w) cred = Inr (Some pk) \<longrightarrow>
            UserProfileAPI_dispatch to_representation serializer w DELETE cred pk request_data =
              UserProfileAPI_destroy w (Some pk) pk)"
proof -
  have pk: "user_id u = pk"
    using assms by (rule get_by_id_user_id)
  have g: "get_object w DELETE (Some pk) pk = Inr u"
    using assms pk by (simp add: get_object_def IsOwnerOrReadOnly_def)
  have g': "get_object (delete_object k w) DELETE (Some pk) pk = Inr u" for k
    using g by (simp add: get_object_def delete_object_def)
  show ?thesis
    using g g' pk
    by (simp add: UserProfileAPI_destroy_def DestroyModelMixin_destroy_def delete_object_def
        dispatch_authenticated)
qed

theorem destroy_avatar_witness:
  "get_by_id (filter is_active (users w0)) 2 = Some bob \<and> avatar (profile bob) = ''avatars/bob.png'' \<and>
   UserProfileAPI_destroy w0 (Some 2) 2 =
     (Inr (Response None HTTP_204_NO_CONTENT),
      w0\<lparr>users := [alice], effects := [Delete_object ''avatars/bob.png'', Delete_row 2]\<rparr>) \<and>
   authenticate (users w0) (Access_token 2) = Inr (Some 2) \<and>
   UserProfileAPI_dispatch representation plain_for w0 DELETE (Access_token 2) 2 bob_new_name =
     (Inr (Response None HTTP_204_NO_CONTENT),
      w0\<lparr>users := [alice], effects := [Delete_object ''avatars/bob.png'', Delete_row 2]\<rparr>) \<and>
   get_by_id (filter is_active (users (w0\<lparr>users := [alice\<lparr>is_active := True\<rparr>, bob]\<rparr>))) 1 =
     Some (alice\<lparr>is_active := True\<rparr>) \<and>
   avatar (profile (alice\<lparr>is_active := True\<rparr>)) = [] \<and>
   UserProfileAPI_destroy (w0\<lparr>users := [alice\<lparr>is_active := True\<rparr>, bob]\<rparr>) (Some 1) 1 =
     (Inr (Response None HTTP_204_NO_CONTENT), w0\<lparr>users := [bob], effects := [Delete_row 1]\<rparr>)"
  using destroy_avatar [of w0 2 bob "Access_token 2" representation plain_for bob_new_name]
    destroy_avatar [of "w0\<lparr>users := [alice\<lparr>is_active := True\<rparr>, bob]\<rparr>" 1
      "alice\<lparr>is_active := True\<rparr>" "Access_token 2" representation plain_for bob_new_name]
  by (simp add: get_by_id_def w0_def alice_def bob_def DestroyModelMixin_destroy_def
      get_object_def IsOwnerOrReadOnly_def delete_object_def)

text \<open>
  C8, as the endpoint has it. In a table with unique primary keys, for a user with
  \<open>is_active = False\<close>: every GET, PATCH and DELETE on that user's profile that gets
  past authentication (a request without credentials, or with the token of an active
  user) raises \<open>Http404\<close>, answered with status 404, and leaves the state unchanged;
  every request that presents the inactive user's own token is ended by
  authentication with \<open>AuthenticationFailed\<close>, answered with status 401, before any
  handler. In particular, after a profile PATCH that held the email key, the owner
  can no longer read, update or delete the profile: with the owner's token the three
  requests end with \<open>AuthenticationFailed\<close>, and from any requester that
  authenticates they raise \<open>Http404\<close>.
\<close>

theorem inactive_profile_not_found:
  assumes "distinct (map user_id (users w))"
  shows "(u \<in> set (users w) \<and> \<not> is_active u \<longrightarrow>
            (authenticate (users w) cred = Inr requester \<longrightarrow>
               UserProfileAPI_dispatch to_representation serializer w m cred (user_id u) request_data
                 = (Inl Http404, w)) \<and>
            UserProfileAPI_dispatch to_representation serializer w m (Access_token (user_id u))
                (user_id u) request_data
              = (Inl AuthenticationFailed, w) \<and>
            exception_status Http404 = HTTP_404_NOT_FOUND \<and>
            exception_status AuthenticationFailed = 401) \<and>
         (get_object w PATCH owner pk = Inr v \<and> serializer v (users w) email_change = Inr vd \<and>
          pd_email vd \<noteq> None \<longrightarrow>
            (authenticate (users (snd (UserProfileAPI_patch serializer w owner pk email_change))) cred
               = Inr requester \<longrightarrow>
               UserProfileAPI_dispatch to_representation serializer
                   (snd (UserProfileAPI_patch serializer w owner pk email_change)) m cred pk
                   request_data
                 = (Inl Http404, snd (UserProfileAPI_patch serializer w owner pk email_change))) \<and>
            UserProfileAPI_dispatch to_representation serializer
                (snd (UserProfileAPI_patch serializer w owner pk email_change)) m (Access_token pk) pk
                request_data
              = (Inl AuthenticationFailed,
                 snd (UserProfileAPI_patch serializer w owner pk email_change)))"
proof (intro conjI impI)
  assume u: "u \<in> set (users w) \<and> \<not> is_active u"
  show "exception_status Http404 = HTTP_404_NOT_FOUND"
    and "exception_status AuthenticationFailed = 401"
    by simp_all
  show "UserProfileAPI_dispatch to_representation serializer w m (Access_token (user_id u))
          (user_id u) request_data = (Inl AuthenticationFailed, w)"
    using dispatch_inactive_requester [of w u] assms u by simp
  assume "authenticate (users w) cred = Inr requester"
  then show "UserProfileAPI_dispatch to_representation serializer w m cred (user_id u) request_data
      = (Inl Http404, w)"
    using dispatch_not_found [of w u cred requester] assms u by simp
next
  assume p: "get_object w PATCH owner pk = Inr v \<and> serializer v (users w) email_change = Inr vd \<and>
          pd_email vd \<noteq> None"
  let ?row = "update (v\<lparr>is_active := False\<rparr>) vd"
  let ?w = "snd (UserProfileAPI_patch serializer w owner pk email_change)"
  from p obtain e where e: "pd_email vd = Some e"
    by auto
  have us: "users ?w = save ?row (users w)"
    using patch_email_run [of w owner pk v serializer email_change vd e] p e by simp
  have pk: "user_id ?row = pk"
    using p get_object_Inr [of w PATCH owner pk v] by (simp add: user_id_update)
  have d: "distinct (map user_id (users ?w))"
    using assms us by (simp add: distinct_save)
  have m: "?row \<in> set (users ?w)"
    using us by (simp add: mem_save)
  have i: "\<not> is_active ?row"
    by (simp add: is_active_update)
  show "UserProfileAPI_dispatch to_representation serializer ?w m (Access_token pk) pk request_data
      = (Inl AuthenticationFailed, ?w)"
    using dispatch_inactive_requester [OF d m i, of to_representation serializer m pk request_data] pk
    by simp
  assume "authenticate (users ?w) cred = Inr requester"
  then show "UserProfileAPI_dispatch to_representation serializer ?w m cred pk request_data
      = (Inl Http404, ?w)"
    using dispatch_not_found [OF d m i, of cred requester to_representation serializer m request_data] pk
    by simp
qed

theorem inactive_profile_not_found_witness:
  "distinct (map user_id (users w0)) \<and> alice \<in> set (users w0) \<and> \<not> is_active alice \<and>
   authenticate (users w0) (Access_token 2) = Inr (Some 2) \<and>
   UserProfileAPI_dispatch representation plain_for w0 GET (Access_token 2) (user_id alice)
     bob_new_email = (Inl Http404, w0) \<and>
   UserProfileAPI_dispatch representation plain_for w0 DELETE (Access_token (user_id alice))
     (user_id alice) bob_new_email = (Inl AuthenticationFailed, w0) \<and>
   get_object w0 PATCH (Some 2) 2 = Inr bob \<and>
   plain_for bob (users w0) bob_new_email =
     Inr \<lparr>pd_username = None, pd_email = Some ''r@x.com'', pd_avatar = None\<rparr> \<and>
   authenticate (users (snd (UserProfileAPI_patch plain_for w0 (Some 2) 2 bob_new_email)))
     No_credentials = Inr None \<and>
   fst (UserProfileAPI_dispatch representation plain_for
     (snd (UserProfileAPI_patch plain_for w0 (Some 2) 2 bob_new_email)) GET No_credentials 2
     bob_new_email) = Inl Http404 \<and>
   fst (UserProfileAPI_dispatch representation plain_for
     (snd (UserProfileAPI_patch plain_for w0 (Some 2) 2 bob_new_email)) PATCH (Access_token 2) 2
     bob_new_email) = Inl AuthenticationFailed"
  using inactive_profile_not_found [of w0 alice "Access_token 2" "Some 2" representation plain_for
      GET bob_new_email "Some 2" 2 bob bob_new_email
      "\<lparr>pd_username = None, pd_email = Some ''r@x.com'', pd_avatar = None\<rparr>"]
    inactive_profile_not_found [of w0 alice "No_credentials" None representation plain_for
      DELETE bob_new_email "Some 2" 2 bob bob_new_email
      "\<lparr>pd_username = None, pd_email = Some ''r@x.com'', pd_avatar = None\<rparr>"]
    inactive_profile_not_found [of w0 alice "Access_token 2" "Some 2" representation plain_for
      PATCH bob_new_email "Some 2" 2 bob bob_new_email
      "\<lparr>pd_username = None, pd_email = Some ''r@x.com'', pd_avatar = None\<rparr>"]
  by (simp add: get_object_def get_by_id_def IsOwnerOrReadOnly_def plain_for_def plain_def
      bob_new_email_def w0_def alice_def bob_def UserProfileAPI_patch_def delay_on_commit_def
      update_def UserProfileAPI_dispatch_def UserProfileAPI_get_def UserProfileAPI_destroy_def)

text \<open>
  C8 as stated fails for the deactivated owner. \<open>bob\<close> changes his email with a
  PATCH under his own token and is stored inactive; his next GET of his own profile
  under the same token is ended by authentication and answered 401, not 404.
\<close>

theorem deactivated_owner_unauthenticated:
  "UserProfileAPI_dispatch representation plain_for w0 PATCH (Access_token 2) 2 bob_new_email =
     (Inr (Response (Some (Obj [(''message'',
        Str ''Updated profile successfully. A verification link has been sent to your new email address.'')]))
        HTTP_200_OK),
      w0\<lparr>users := [alice, bob\<lparr>email := ''r@x.com'', is_active := False\<rparr>],
         on_commit := [\<lparr>task_email = ''r@x.com'', task_user_id = 2,
           task_purpose = ''verification'', task_subject = ''Verification URL from AskTech.''\<rparr>]\<rparr>) \<and>
   UserProfileAPI_dispatch representation plain_for
       (w0\<lparr>users := [alice, bob\<lparr>email := ''r@x.com'', is_active := False\<rparr>],
          on_commit := [\<lparr>task_email = ''r@x.com'', task_user_id = 2,
            task_purpose = ''verification'', task_subject = ''Verification URL from AskTech.''\<rparr>]\<rparr>)
       GET (Access_token 2) 2 bob_new_email =
     (Inl AuthenticationFailed,
      w0\<lparr>users := [alice, bob\<lparr>email := ''r@x.com'', is_active := False\<rparr>],
         on_commit := [\<lparr>task_email = ''r@x.com'', task_user_id = 2,
           task_purpose = ''verification'', task_subject = ''Verification URL from AskTech.''\<rparr>]\<rparr>) \<and>
   exception_status AuthenticationFailed = 401 \<and>
   exception_status AuthenticationFailed \<noteq> HTTP_404_NOT_FOUND"
  by (simp add: UserProfileAPI_dispatch_def UserProfileAPI_patch_def get_object_def get_by_id_def
      IsOwnerOrReadOnly_def plain_for_def plain_def bob_new_email_def w0_def alice_def bob_def
      delay_on_commit_def update_def)

text \<open>
  C9. In the set-password view the token is judged before the payload. When the
  verifier rejects the token, the answer is the verifier's response and the state,
  so every stored password, is unchanged, whatever the payload: also for a payload
  that the serializer rejects, whose errors are not returned. Only when the verifier
  resolves a user does a payload that the serializer rejects end in the 400 response
  with the payload's errors.
\<close>

theorem set_password_token_first:
  "(get_user (users w) token = Inl failure \<longrightarrow>
      SetPasswordAPI_post get_user serializer w request_data token = (failure, w) \<and>
      map password (users (snd (SetPasswordAPI_post get_user serializer w request_data token)))
        = map password (users w)) \<and>
   (get_user (users w) token = Inr u \<and> serializer (users w) request_data = Inl errors \<longrightarrow>
      SetPasswordAPI_post get_user serializer w request_data token =
        (Response (Some (Obj [(''errors'', errors)])) HTTP_400_BAD_REQUEST, w))"
  by (simp add: SetPasswordAPI_post_def)

theorem set_password_token_first_witness:
  "plain (users w0) (None :: set_password_data option) = Inl (Str ''invalid'') \<and>
   JWT_token_get_user 50 (users w0) Malformed = Inl invalid_token_response \<and>
   SetPasswordAPI_post (JWT_token_get_user 50) plain w0 None Malformed = (invalid_token_response, w0) \<and>
   SetPasswordAPI_post (JWT_token_get_user 50) plain w0 (Some \<lparr>new_password = ''hunter2''\<rparr>)
     Malformed = (invalid_token_response, w0) \<and>
   JWT_token_get_user 50 (users w0)
     (Signed \<lparr>claim_user_id = 2, claim_purpose = ''reset_password'', claim_exp = 100\<rparr>) = Inr bob \<and>
   SetPasswordAPI_post (JWT_token_get_user 50) plain w0 None
     (Signed \<lparr>claim_user_id = 2, claim_purpose = ''reset_password'', claim_exp = 100\<rparr>) =
       (Response (Some (Obj [(''errors'', Str ''invalid'')])) HTTP_400_BAD_REQUEST, w0)"
  using set_password_token_first [of "JWT_token_get_user 50" w0 Malformed invalid_token_response
          plain None bob "Str ''invalid''"]
    set_password_token_first [of "JWT_token_get_user 50" w0 Malformed invalid_token_response
          plain "Some \<lparr>new_password = ''hunter2''\<rparr>" bob "Str ''invalid''"]
    set_password_token_first [of "JWT_token_get_user 50" w0
          "Signed \<lparr>claim_user_id = 2, claim_purpose = ''reset_password'', claim_exp = 100\<rparr>"
          invalid_token_response plain None bob "Str ''invalid''"]
  by (simp add: plain_def w0_def alice_def bob_def get_by_id_def)

text \<open>
  C10. The trigger of the deactivation in a profile PATCH is the presence of the email
  key in the validated data. With the key present, whatever its value, the user is
  stored inactive with that value as email, one \<^verbatim>\<open>verification\<close> email task for
  that value is registered and the message announces it; this holds in particular
  when the value is the user's current email, which changes nothing else in the row.
  With the key absent the user stays active and no task is registered.
\<close>

theorem patch_email_key_presence:
  assumes "get_object w PATCH requester pk = Inr u"
    and "serializer u (users w) request_data = Inr vd"
  shows "(pd_email vd = Some e \<longrightarrow>
            fst (UserProfileAPI_patch serializer w requester pk request_data) =
              Inr (Response (Some (Obj [(''message'',
                Str ''Updated profile successfully. A verification link has been sent to your new email address.'')]))
                HTTP_200_OK) \<and>
            users (snd (UserProfileAPI_patch serializer w requester pk request_data)) =
              save (update (u\<lparr>is_active := False\<rparr>) vd) (users w) \<and>
            get_by_id (users (snd (UserProfileAPI_patch serializer w requester pk request_data))) pk =
              Some (update (u\<lparr>is_active := False\<rparr>) vd) \<and>
            \<not> is_active (update (u\<lparr>is_active := False\<rparr>) vd) \<and>
            email (update (u\<lparr>is_active := False\<rparr>) vd) = e \<and>
            on_commit (snd (UserProfileAPI_patch serializer w requester pk request_data)) =
              on_commit w @
                [\<lparr>task_email = e, task_user_id = pk, task_purpose = ''verification'',
                  task_subject = ''Verification URL from AskTech.''\<rparr>]) \<and>
         (pd_email vd = Some (email u) \<and> pd_username vd = None \<and> pd_avatar vd = None \<longrightarrow>
            update (u\<lparr>is_active := False\<rparr>) vd = u\<lparr>is_active := False\<rparr>) \<and>
         (pd_email vd = None \<longrightarrow>
            fst (UserProfileAPI_patch serializer w requester pk request_data) =
              Inr (Response (Some (Obj [(''message'', Str ''Updated profile successfully.'')])) HTTP_200_OK) \<and>
            users (snd (UserProfileAPI_patch serializer w requester pk request_data)) =
              save (update u vd) (users w) \<and>
            get_by_id (users (snd (UserProfileAPI_patch serializer w requester pk request_data))) pk =
              Some (update u vd) \<and>
            is_active (update u vd) \<and>
            on_commit (snd (UserProfileAPI_patch serializer w requester pk request_data)) = on_commit w)"
proof (intro conjI impI)
  assume e: "pd_email vd = Some e"
  let ?row = "update (u\<lparr>is_active := False\<rparr>) vd"
  let ?r = "UserProfileAPI_patch serializer w requester pk request_data"
  note run = patch_email_run [of w requester pk u serializer request_data vd e, OF assms e]
  have pk: "user_id ?row = pk"
    using assms(1) get_object_Inr [of w PATCH requester pk u] by (simp add: user_id_update)
  show "fst ?r = Inr (Response (Some (Obj [(''message'',
                Str ''Updated profile successfully. A verification link has been sent to your new email address.'')]))
                HTTP_200_OK)"
    by (simp add: run)
  show "users (snd ?r) = save ?row (users w)"
    by (simp add: run)
  show "get_by_id (users (snd ?r)) pk = Some ?row"
    using get_by_id_save [of ?row "users w"] pk by (simp add: run)
  show "\<not> is_active ?row"
    by (simp add: is_active_update)
  show "email ?row = e"
    using e by (simp add: update_def)
  show "on_commit (snd ?r) = on_commit w @
                [\<lparr>task_email = e, task_user_id = pk, task_purpose = ''verification'',
                  task_subject = ''Verification URL from AskTech.''\<rparr>]"
    by (simp add: run)
next
  assume "pd_email vd = Some (email u) \<and> pd_username vd = None \<and> pd_avatar vd = None"
  then show "update (u\<lparr>is_active := False\<rparr>) vd = u\<lparr>is_active := False\<rparr>"
    by (simp add: update_def)
next
  assume e: "pd_email vd = None"
  let ?r = "UserProfileAPI_patch serializer w requester pk request_data"
  note run = patch_plain_run [of w requester pk u serializer request_data vd, OF assms e]
  have u: "user_id u = pk" "is_active u"
    using assms(1) get_object_Inr [of w PATCH requester pk u] by simp_all
  show "fst ?r = Inr (Response (Some (Obj [(''message'', Str ''Updated profile successfully.'')])) HTTP_200_OK)"
    by (simp add: run)
  show "users (snd ?r) = save (update u vd) (users w)"
    by (simp add: run)
  show "get_by_id (users (snd ?r)) pk = Some (update u vd)"
    using get_by_id_save [of "update u vd" "users w"] u(1) by (simp add: run user_id_update)
  show "is_active (update u vd)"
    using u(2) by (simp add: is_active_update)
  show "on_commit (snd ?r) = on_commit w"
    by (simp add: run)
qed

theorem patch_email_key_presence_witness:
  "get_object w0 PATCH (Some 2) 2 = Inr bob \<and>
   plain_for bob (users w0) bob_same_email =
     Inr \<lparr>pd_username = None, pd_email = Some (email bob), pd_avatar = None\<rparr> \<and>
   users (snd (UserProfileAPI_patch plain_for w0 (Some 2) 2 bob_same_email)) =
     [alice, bob\<lparr>is_active := False\<rparr>] \<and>
   on_commit (snd (UserProfileAPI_patch plain_for w0 (Some 2) 2 bob_same_email)) =
     [\<lparr>task_email = ''b@x.com'', task_user_id = 2, task_purpose = ''verification'',
                  task_subject = ''Verification URL from AskTech.''\<rparr>] \<and>
   plain_for bob (users w0) bob_new_email =
     Inr \<lparr>pd_username = None, pd_email = Some ''r@x.com'', pd_avatar = None\<rparr> \<and>
   users (snd (UserProfileAPI_patch plain_for w0 (Some 2) 2 bob_new_email)) =
     [alice, bob\<lparr>email := ''r@x.com'', is_active := False\<rparr>] \<and>
   on_commit (snd (UserProfileAPI_patch plain_for w0 (Some 2) 2 bob_new_email)) =
     [\<lparr>task_email = ''r@x.com'', task_user_id = 2, task_purpose = ''verification'',
                  task_subject = ''Verification URL from AskTech.''\<rparr>] \<and>
   plain_for bob (users w0) bob_new_name =
     Inr \<lparr>pd_username = Some ''robert'', pd_email = None, pd_avatar = None\<rparr> \<and>
   users (snd (UserProfileAPI_patch plain_for w0 (Some 2) 2 bob_new_name)) =
     [alice, bob\<lparr>username := ''robert''\<rparr>] \<and>
   on_commit (snd (UserProfileAPI_patch plain_for w0 (Some 2) 2 bob_new_name)) = []"
  using patch_email_key_presence [of w0 "Some 2" 2 bob plain_for bob_same_email
      "\<lparr>pd_username = None, pd_email = Some (email bob), pd_avatar = None\<rparr>" "email bob"]
    patch_email_key_presence [of w0 "Some 2" 2 bob plain_for bob_new_email
      "\<lparr>pd_username = None, pd_email = Some ''r@x.com'', pd_avatar = None\<rparr>" "''r@x.com''"]
    patch_email_key_presence [of w0 "Some 2" 2 bob plain_for bob_new_name
      "\<lparr>pd_username = Some ''robert'', pd_email = None, pd_avatar = None\<rparr>" "''r@x.com''"]
  by (simp add: get_object_def get_by_id_def IsOwnerOrReadOnly_def plain_for_def plain_def
      bob_same_email_def bob_new_email_def bob_new_name_def w0_def alice_def bob_def update_def
      UserProfileAPI_patch_def delay_on_commit_def)

end
